theory Spec2Isabelle
  imports Complex_Main "HOL-Library.Sublist"
begin

section \<open>Strings\<close>

text \<open>
  A JavaScript string whose code units are below 256 is modelled as a \<^typ>\<open>string\<close>, one
  \<^typ>\<open>char\<close> for each code unit (U+0000 to U+00FF). On these \<open>toLowerCase\<close> works code
  unit by code unit: it adds 32 to the upper-case letters U+0041 to U+005A, U+00C0 to
  U+00D6 and U+00D8 to U+00DE, and leaves every other code unit alone (the sign U+00D7 and
  the letters U+00DF, U+00B5 and U+00FF among them).
\<close>

definition toLowerCaseChar :: "char \<Rightarrow> char" where
  "toLowerCaseChar c =
     (let n = (of_char c :: nat)
      in if (65 \<le> n \<and> n \<le> 90) \<or> (192 \<le> n \<and> n \<le> 214) \<or> (216 \<le> n \<and> n \<le> 222)
         then char_of (n + 32) else c)"

definition toLowerCase :: "string \<Rightarrow> string" where
  "toLowerCase s = map toLowerCaseChar s"

text \<open>
  \<open>String.prototype.includes\<close>: is there a position of \<open>s\<close> at which \<open>q\<close> starts.
  The search walks the positions of \<open>s\<close> from the left; the empty \<open>q\<close> is found at once.
\<close>

fun includes_str :: "string \<Rightarrow> string \<Rightarrow> bool" where
  "includes_str [] q = (q = [])"
| "includes_str (c # s) q = (prefix q (c # s) \<or> includes_str s q)"

section \<open>Assets, the filtered list and the suggestions (App.jsx, lines 113-123 and 210-219)\<close>

record crypto =
  crypto_id :: string
  name :: string
  symbol :: string

text \<open>The arrow function given to \<open>cryptos.filter\<close> in both memoised lists.\<close>

definition matchesTerm :: "string \<Rightarrow> crypto \<Rightarrow> bool" where
  "matchesTerm lowerCaseSearchTerm c =
     (includes_str (toLowerCase (name c)) lowerCaseSearchTerm \<or>
      includes_str (toLowerCase (symbol c)) lowerCaseSearchTerm)"

definition filteredCryptos :: "crypto list \<Rightarrow> string \<Rightarrow> crypto list" where
  "filteredCryptos cryptos searchTerm =
     (if searchTerm = [] then cryptos
      else let lowerCaseSearchTerm = toLowerCase searchTerm
           in filter (matchesTerm lowerCaseSearchTerm) cryptos)"

definition searchSuggestions :: "crypto list \<Rightarrow> string \<Rightarrow> crypto list" where
  "searchSuggestions cryptos searchTerm =
     (if searchTerm = [] \<or> length searchTerm < 1 then []
      else let lowerCaseSearchTerm = toLowerCase searchTerm
           in take 8 (filter (matchesTerm lowerCaseSearchTerm) cryptos))"






text \<open>The two assets of the specification's scenario.\<close>

definition bitcoin :: crypto where
  "bitcoin = \<lparr>crypto_id = ''bitcoin'', name = ''Bitcoin'', symbol = ''btc''\<rparr>"

definition bitcoin_cash :: crypto where
  "bitcoin_cash = \<lparr>crypto_id = ''bitcoin-cash'', name = ''Bitcoin Cash'', symbol = ''bch''\<rparr>"


section \<open>The search box and its suggestion panel (App.jsx, lines 5-6, 21-22, 140-196, 274, 428-444)\<close>

text \<open>
  The four pieces of component state the search box reads and writes. \<open>cryptos\<close> is replaced
  by \<open>setCryptos(data)\<close> when a fetch succeeds; the suggestion list is recomputed from
  \<open>cryptos\<close> and \<open>searchTerm\<close> at every render.
\<close>

record app =
  cryptos :: "crypto list"
  searchTerm :: string
  showSuggestions :: bool
  selectedSuggestionIndex :: int

definition initial :: app where
  "initial = \<lparr>cryptos = [], searchTerm = [], showSuggestions = False, selectedSuggestionIndex = - 1\<rparr>"

definition suggestionsOf :: "app \<Rightarrow> crypto list" where
  "suggestionsOf s = searchSuggestions (cryptos s) (searchTerm s)"

text \<open>\<open>xs[i]\<close> for an integer \<open>i\<close>: \<open>undefined\<close> (here \<open>None\<close>) outside the array.\<close>

definition at_index :: "'a list \<Rightarrow> int \<Rightarrow> 'a option" where
  "at_index xs i = (if 0 \<le> i \<and> i < int (length xs) then Some (xs ! nat i) else None)"

definition handleSearchChange :: "string \<Rightarrow> app \<Rightarrow> app" where
  "handleSearchChange v s =
     s\<lparr>searchTerm := v, showSuggestions := (length v > 0), selectedSuggestionIndex := - 1\<rparr>"

definition selectSuggestion :: "crypto \<Rightarrow> app \<Rightarrow> app" where
  "selectSuggestion c s =
     s\<lparr>searchTerm := name c, showSuggestions := False, selectedSuggestionIndex := - 1\<rparr>"

datatype key = ArrowDown | ArrowUp | Enter | Escape | OtherKey

definition handleKeyDown :: "key \<Rightarrow> app \<Rightarrow> app" where
  "handleKeyDown k s =
     (if \<not> showSuggestions s then s
      else case k of
        ArrowDown \<Rightarrow>
          s\<lparr>selectedSuggestionIndex :=
              (let prev = selectedSuggestionIndex s
               in if prev < int (length (suggestionsOf s)) - 1 then prev + 1 else prev)\<rparr>
      | ArrowUp \<Rightarrow>
          s\<lparr>selectedSuggestionIndex :=
              (let prev = selectedSuggestionIndex s in if prev > 0 then prev - 1 else - 1)\<rparr>
      | Enter \<Rightarrow>
          (if selectedSuggestionIndex s \<ge> 0
           then (case at_index (suggestionsOf s) (selectedSuggestionIndex s) of
                   Some c \<Rightarrow> selectSuggestion c s
                 | None \<Rightarrow> s)
           else s)
      | Escape \<Rightarrow> s\<lparr>showSuggestions := False, selectedSuggestionIndex := - 1\<rparr>
      | OtherKey \<Rightarrow> s)"

text \<open>
  The panel is rendered when \<open>showSuggestions && searchSuggestions.length > 0\<close>; it has one
  row for each suggestion, and \<open>suggestionsRef.current\<close> is set while it is rendered.
\<close>

definition panelRendered :: "app \<Rightarrow> bool" where
  "panelRendered s \<longleftrightarrow> showSuggestions s \<and> length (suggestionsOf s) > 0"

text \<open>
  \<open>handleClickOutside\<close>, for a mouse press outside both the panel and the input: it acts
  only while \<open>suggestionsRef.current\<close> is set.
\<close>

definition handleClickOutside :: "app \<Rightarrow> app" where
  "handleClickOutside s =
     (if panelRendered s then s\<lparr>showSuggestions := False, selectedSuggestionIndex := - 1\<rparr> else s)"

text \<open>
  What can happen to the search box. \<open>MouseEnter i\<close> and \<open>Click i\<close> come from row \<open>i\<close> of the
  panel: where the panel has no such row there is nothing to receive them and the state
  stays as it is. \<open>CryptosLoaded\<close> is the arrival of a fetched asset list. Each event is
  handled on the state of the render before it, so a run is a fold of \<open>step\<close> over the events.
\<close>

datatype event =
    SearchChange string
  | KeyDown key
  | MouseEnter nat
  | Click nat
  | MouseDownOutside
  | Focus
  | CryptosLoaded "crypto list"

definition step :: "event \<Rightarrow> app \<Rightarrow> app" where
  "step e s =
     (case e of
        SearchChange v \<Rightarrow> handleSearchChange v s
      | KeyDown k \<Rightarrow> handleKeyDown k s
      | MouseEnter i \<Rightarrow>
          (if panelRendered s \<and> i < length (suggestionsOf s)
           then s\<lparr>selectedSuggestionIndex := int i\<rparr> else s)
      | Click i \<Rightarrow>
          (if panelRendered s \<and> i < length (suggestionsOf s)
           then selectSuggestion (suggestionsOf s ! i) s else s)
      | MouseDownOutside \<Rightarrow> handleClickOutside s
      | Focus \<Rightarrow> (if length (searchTerm s) > 0 then s\<lparr>showSuggestions := True\<rparr> else s)
      | CryptosLoaded data \<Rightarrow> s\<lparr>cryptos := data\<rparr>)"

fun run :: "event list \<Rightarrow> app \<Rightarrow> app" where
  "run [] s = s"
| "run (e # es) s = run es (step e s)"




section \<open>JavaScript values\<close>

text \<open>
  What \<open>response.json()\<close> resolves to, and what reading a property of it gives. Numbers are
  the integers (a JSON number with a fraction or an exponent is left out); an object is the
  list of its members, read with \<^const>\<open>map_of\<close>; \<open>JUndefined\<close> is the result of reading a
  property that is not there.
\<close>

datatype jsval =
    JUndefined
  | JNull
  | JBool bool
  | JNum int
  | JStr string
  | JArr "jsval list"
  | JObj "(string \<times> jsval) list"

fun showNat :: "nat \<Rightarrow> string" where
  "showNat n =
     (if n < 10 then [char_of (48 + n)] else showNat (n div 10) @ [char_of (48 + n mod 10)])"

declare showNat.simps [simp del]

definition showInt :: "int \<Rightarrow> string" where
  "showInt i = (if i < 0 then CHR ''-'' # showNat (nat (- i)) else showNat (nat i))"

fun joinWith :: "string \<Rightarrow> string list \<Rightarrow> string" where
  "joinWith sep [] = []"
| "joinWith sep [x] = x"
| "joinWith sep (x # y # ys) = x @ sep @ joinWith sep (y # ys)"

text \<open>The string a value becomes inside a template literal.\<close>

fun toStr :: "jsval \<Rightarrow> string" where
  "toStr JUndefined = ''undefined''"
| "toStr JNull = ''null''"
| "toStr (JBool b) = (if b then ''true'' else ''false'')"
| "toStr (JNum n) = showInt n"
| "toStr (JStr s) = s"
| "toStr (JArr xs) =
     joinWith '','' (map (\<lambda>x. if x = JUndefined \<or> x = JNull then [] else toStr x) xs)"
| "toStr (JObj kvs) = ''[object Object]''"

fun truthy :: "jsval \<Rightarrow> bool" where
  "truthy JUndefined = False"
| "truthy JNull = False"
| "truthy (JBool b) = b"
| "truthy (JNum n) = (n \<noteq> 0)"
| "truthy (JStr s) = (s \<noteq> [])"
| "truthy (JArr xs) = True"
| "truthy (JObj kvs) = True"

text \<open>
  \<open>v > 0\<close>. A string operand is first converted to a number; that conversion belongs to the
  language, not to this program, and is taken as the parameter \<open>numPos\<close> (is the number the
  string converts to greater than zero). An array is converted through its string.
\<close>

fun gt0 :: "(string \<Rightarrow> bool) \<Rightarrow> jsval \<Rightarrow> bool" where
  "gt0 numPos JUndefined = False"
| "gt0 numPos JNull = False"
| "gt0 numPos (JBool b) = b"
| "gt0 numPos (JNum n) = (n > 0)"
| "gt0 numPos (JStr s) = numPos s"
| "gt0 numPos (JArr xs) = numPos (toStr (JArr xs))"
| "gt0 numPos (JObj kvs) = False"

text \<open>
  The message of the \<open>TypeError\<close> raised by reading a property of \<open>null\<close> or \<open>undefined\<close>,
  in the wording of V8. The program only passes it on to the user.
\<close>

definition cannotRead :: "jsval \<Rightarrow> string \<Rightarrow> string" where
  "cannotRead v k =
     ''Cannot read properties of '' @ toStr v @ '' (reading '' @ [CHR 0x27] @ k @ [CHR 0x27] @ '')''"

text \<open>
  \<open>v.k\<close> and \<open>v[i]\<close> (with \<open>k\<close> the decimal form of \<open>i\<close>), for the properties this program
  reads: an own member of an object, \<open>length\<close> and the elements of an array or a string.
  \<open>Inl\<close> is a raised error, by its message.
\<close>

definition elementAt :: "'a list \<Rightarrow> string \<Rightarrow> 'a option" where
  "elementAt xs k = map_of (zip (map showNat [0..<length xs]) xs) k"

fun getProp :: "jsval \<Rightarrow> string \<Rightarrow> string + jsval" where
  "getProp JUndefined k = Inl (cannotRead JUndefined k)"
| "getProp JNull k = Inl (cannotRead JNull k)"
| "getProp (JBool b) k = Inr JUndefined"
| "getProp (JNum n) k = Inr JUndefined"
| "getProp (JStr s) k =
     Inr (if k = ''length'' then JNum (int (length s))
          else case elementAt s k of Some c \<Rightarrow> JStr [c] | None \<Rightarrow> JUndefined)"
| "getProp (JArr xs) k =
     Inr (if k = ''length'' then JNum (int (length xs))
          else case elementAt xs k of Some x \<Rightarrow> x | None \<Rightarrow> JUndefined)"
| "getProp (JObj kvs) k = Inr (case map_of kvs k of Some x \<Rightarrow> x | None \<Rightarrow> JUndefined)"

section \<open>Responses\<close>

text \<open>
  A response as the program sees it: \<open>body\<close> is the outcome of \<open>response.json()\<close>, \<open>Inl\<close> the
  message of the error it rejects with when the body does not parse. \<open>response.ok\<close> is set
  for the statuses 200 to 299. A \<open>reply\<close> is the outcome of a call of \<open>fetch\<close>: \<open>Inl\<close> the
  message of the error it rejects with. The network is a function from what is requested
  to the reply.
\<close>

record response =
  status :: nat
  statusText :: string
  body :: "string + jsval"

definition ok :: "response \<Rightarrow> bool" where
  "ok r \<longleftrightarrow> 200 \<le> status r \<and> status r \<le> 299"

type_synonym reply = "string + response"

section \<open>Fetching the market data (App.jsx, lines 27-58)\<close>

record feed =
  cryptosData :: jsval
  loading :: bool
  error :: "string option"

definition marketUrl :: "string \<Rightarrow> string" where
  "marketUrl apiKey =
     ''https://api.coingecko.com/api/v3/coins/markets?vs_currency=usd&order=market_cap_desc&per_page=100&page=1&sparkline=false&price_change_percentage=24h''
     @ (if apiKey \<noteq> [] then ''&x_cg_demo_api_key='' @ apiKey else [])"

text \<open>The \<open>catch\<close> block followed by \<open>finally\<close>, for an error with message \<open>m\<close>.\<close>

definition fetchFailed :: "string \<Rightarrow> feed \<Rightarrow> feed" where
  "fetchFailed m st =
     st\<lparr>loading := False,
        error := Some (''Failed to load cryptocurrency data: '' @ m
                       @ ''. Please check your API key or try again later.'')\<rparr>"

text \<open>
  Lines 44-45: \<open>errorData\<close> and the message of the error thrown for a response that is
  not ok. \<open>Inl\<close> is the error that reading \<open>errorData\<close> itself raised.
\<close>

definition httpErrorMessage :: "response \<Rightarrow> string + string" where
  "httpErrorMessage r =
     (let errorData = (case body r of
                         Inl _ \<Rightarrow> JObj [(''message'', JStr (statusText r))]
                       | Inr v \<Rightarrow> v)
      in case getProp errorData ''error'' of
           Inl m \<Rightarrow> Inl m
         | Inr e \<Rightarrow>
             (case (if truthy e then Inr e else getProp errorData ''message'') of
                Inl m \<Rightarrow> Inl m
              | Inr em \<Rightarrow>
                  Inr (''HTTP error! Status: '' @ showNat (status r) @ '' - ''
                       @ toStr (if truthy em then em else JStr ''Unknown error''))))"

definition fetchCryptoData :: "string \<Rightarrow> (string \<Rightarrow> reply) \<Rightarrow> feed \<Rightarrow> feed" where
  "fetchCryptoData apiKey fetch st0 =
     (let st = st0\<lparr>loading := True, error := None\<rparr>;
          apiUrl = marketUrl apiKey
      in case fetch apiUrl of
           Inl m \<Rightarrow> fetchFailed m st
         | Inr r \<Rightarrow>
             if \<not> ok r
             then (case httpErrorMessage r of
                     Inl m \<Rightarrow> fetchFailed m st
                   | Inr m \<Rightarrow> fetchFailed m st)
             else (case body r of
                     Inl m \<Rightarrow> fetchFailed m st
                   | Inr data \<Rightarrow> st\<lparr>cryptosData := data, loading := False\<rparr>))"

section \<open>Asking for an insight (App.jsx, lines 61-110)\<close>

record insight =
  insight_name :: string
  insight_text :: jsval

text \<open>
  The three pieces of insight state as \<open>getCryptoInsight\<close> leaves them, and the requests it
  sent (the URL and the prompt of each).
\<close>

record insights =
  llmInsight :: "insight option"
  isInsightLoading :: bool
  insightError :: "string option"
  posted :: "(string \<times> string) list"

definition fallbackInsights :: "string \<Rightarrow> string list" where
  "fallbackInsights cryptoName =
     [cryptoName @ '' is a prominent cryptocurrency in the digital asset market. It continues to attract attention from investors and traders worldwide.'',
      cryptoName @ '' represents a significant player in the blockchain ecosystem. Its performance often reflects broader market trends in the crypto space.'',
      cryptoName @ '' has established itself as a key digital asset with growing adoption and market presence.'',
      cryptoName @ '' continues to evolve in the competitive cryptocurrency landscape, offering unique value propositions to its community.'']"

definition insightPrompt :: "string \<Rightarrow> string" where
  "insightPrompt cryptoName =
     ''Provide a brief, concise, and neutral insight or a '' @ [CHR 0x22] @ ''what's new''
     @ [CHR 0x22] @ '' update about '' @ cryptoName
     @ ''. Focus on recent developments, key features, or its general market position. Keep it to 2-3 sentences.''"

definition insightUrl :: "string \<Rightarrow> string" where
  "insightUrl geminiApiKey =
     ''https://generativelanguage.googleapis.com/v1beta/models/gemini-2.0-flash:generateContent?key=''
     @ geminiApiKey"

text \<open>
  Lines 95-98 on the parsed body: \<open>Inl m\<close> when a read raises, \<open>Inr None\<close> when the test of
  the \<open>if\<close> fails, \<open>Inr (Some text)\<close> with the value of
  \<open>result.candidates[0].content.parts[0].text\<close> when it passes.
\<close>

definition candidateText :: "(string \<Rightarrow> bool) \<Rightarrow> jsval \<Rightarrow> string + jsval option" where
  "candidateText numPos result =
     (case getProp result ''candidates'' of
        Inl m \<Rightarrow> Inl m
      | Inr candidates \<Rightarrow>
     if \<not> truthy candidates then Inr None else
     (case getProp candidates ''length'' of
        Inl m \<Rightarrow> Inl m
      | Inr n \<Rightarrow>
     if \<not> gt0 numPos n then Inr None else
     (case getProp candidates ''0'' of
        Inl m \<Rightarrow> Inl m
      | Inr first \<Rightarrow>
     (case getProp first ''content'' of
        Inl m \<Rightarrow> Inl m
      | Inr content \<Rightarrow>
     if \<not> truthy content then Inr None else
     (case getProp content ''parts'' of
        Inl m \<Rightarrow> Inl m
      | Inr parts \<Rightarrow>
     if \<not> truthy parts then Inr None else
     (case getProp parts ''length'' of
        Inl m \<Rightarrow> Inl m
      | Inr n' \<Rightarrow>
     if \<not> gt0 numPos n' then Inr None else
     (case getProp parts ''0'' of
        Inl m \<Rightarrow> Inl m
      | Inr part \<Rightarrow>
     (case getProp part ''text'' of
        Inl m \<Rightarrow> Inl m
      | Inr text \<Rightarrow> Inr (Some text)))))))))"

text \<open>The \<open>catch\<close> block followed by \<open>finally\<close>, for an error with message \<open>m\<close>.\<close>

definition insightFailed :: "string \<Rightarrow> insights \<Rightarrow> insights" where
  "insightFailed m st =
     st\<lparr>isInsightLoading := False, insightError := Some (''Failed to get insight: '' @ m @ ''.'')\<rparr>"

text \<open>
  \<open>rnd\<close> is the value of \<open>Math.random()\<close>. \<open>fetch\<close> is given the URL and the prompt, the one
  part of the posted payload that varies.
\<close>

definition getCryptoInsight ::
  "(string \<Rightarrow> bool) \<Rightarrow> string \<Rightarrow> rat \<Rightarrow> (string \<Rightarrow> string \<Rightarrow> reply) \<Rightarrow> string \<Rightarrow> insights"
  where
  "getCryptoInsight numPos geminiApiKey rnd fetch cryptoName =
     (let st = \<lparr>llmInsight = None, isInsightLoading = True, insightError = None, posted = []\<rparr>
      in if geminiApiKey = []
         then let randomInsight =
                    (case at_index (fallbackInsights cryptoName)
                            \<lfloor>rnd * of_nat (length (fallbackInsights cryptoName))\<rfloor> of
                       Some t \<Rightarrow> JStr t
                     | None \<Rightarrow> JUndefined)
              in st\<lparr>llmInsight := Some \<lparr>insight_name = cryptoName, insight_text = randomInsight\<rparr>,
                    isInsightLoading := False\<rparr>
         else let prompt = insightPrompt cryptoName;
                  apiUrl = insightUrl geminiApiKey;
                  st' = st\<lparr>posted := [(apiUrl, prompt)]\<rparr>
              in case fetch apiUrl prompt of
                   Inl m \<Rightarrow> insightFailed m st'
                 | Inr r \<Rightarrow>
                     (case body r of
                        Inl m \<Rightarrow> insightFailed m st'
                      | Inr result \<Rightarrow>
                          (case candidateText numPos result of
                             Inl m \<Rightarrow> insightFailed m st'
                           | Inr None \<Rightarrow>
                               st'\<lparr>isInsightLoading := False,
                                   insightError :=
                                     Some ''Could not generate insight. Please try again.''\<rparr>
                           | Inr (Some text) \<Rightarrow>
                               st'\<lparr>llmInsight :=
                                     Some \<lparr>insight_name = cryptoName, insight_text = text\<rparr>,
                                   isInsightLoading := False\<rparr>)))"

section \<open>Predicates of the specification and sample data\<close>

text \<open>
  In every state the program reaches, the cursor is at least \<open>-1\<close>, and it is \<open>-1\<close> while
  the suggestions are hidden.
\<close>

definition hidden_unselected :: "app \<Rightarrow> bool" where
  "hidden_unselected s \<longleftrightarrow>
     - 1 \<le> selectedSuggestionIndex s \<and>
     (\<not> showSuggestions s \<longrightarrow> selectedSuggestionIndex s = - 1)"

text \<open>The cursor lies in \<open>[-1, len(suggestions) - 1]\<close>.\<close>

definition in_range :: "app \<Rightarrow> bool" where
  "in_range s \<longleftrightarrow>
     - 1 \<le> selectedSuggestionIndex s \<and>
     selectedSuggestionIndex s \<le> int (length (suggestionsOf s)) - 1"

text \<open>
  A value is nullish when it is \<open>null\<close> or \<open>undefined\<close>. The own member \<open>k\<close> of a value is
  the member of that name when the value is a JSON object, and there is none otherwise.
  A property name is \<open>named\<close> when it is not \<open>length\<close> and not a decimal index.
\<close>

definition nullish :: "jsval \<Rightarrow> bool" where
  "nullish v \<longleftrightarrow> v = JNull \<or> v = JUndefined"

definition ownMember :: "jsval \<Rightarrow> string \<Rightarrow> jsval option" where
  "ownMember v k = (case v of JObj kvs \<Rightarrow> map_of kvs k | _ \<Rightarrow> None)"

definition named :: "string \<Rightarrow> bool" where
  "named k \<longleftrightarrow>
     k \<noteq> ''length'' \<and> list_ex (\<lambda>c. (of_char c :: nat) < 48 \<or> 57 < (of_char c :: nat)) k"

text \<open>
  The error text the server provided: the \<open>error\<close> member of the body when it is truthy,
  else its \<open>message\<close> member when that is truthy.
\<close>

definition truthyMember :: "jsval \<Rightarrow> string \<Rightarrow> jsval option" where
  "truthyMember v k =
     (case ownMember v k of Some x \<Rightarrow> if truthy x then Some x else None | None \<Rightarrow> None)"

definition serverText :: "jsval \<Rightarrow> string option" where
  "serverText v =
     (case truthyMember v ''error'' of
        Some e \<Rightarrow> Some (toStr e)
      | None \<Rightarrow> (case truthyMember v ''message'' of
                   Some m \<Rightarrow> Some (toStr m)
                 | None \<Rightarrow> None))"

definition failureFrame :: "string \<Rightarrow> string" where
  "failureFrame m =
     ''Failed to load cryptocurrency data: '' @ m
     @ ''. Please check your API key or try again later.''"

definition httpText :: "nat \<Rightarrow> string \<Rightarrow> string" where
  "httpText code detail = ''HTTP error! Status: '' @ showNat code @ '' - '' @ detail"

text \<open>
  What \<open>c[0]\<close> is when \<open>c.length > 0\<close> holds, for a value \<open>c\<close> other than \<open>null\<close>: the first
  element of a non-empty array, the first character of a non-empty string, the member \<open>0\<close>
  of an object whose \<open>length\<close> member is greater than zero. There is none when
  \<open>c.length > 0\<close> does not hold.
\<close>

definition firstElement :: "(string \<Rightarrow> bool) \<Rightarrow> jsval \<Rightarrow> jsval option" where
  "firstElement numPos c =
     (case c of
        JArr xs \<Rightarrow> (case xs of [] \<Rightarrow> None | x # rest \<Rightarrow> Some x)
      | JStr s \<Rightarrow> (case s of [] \<Rightarrow> None | ch # rest \<Rightarrow> Some (JStr [ch]))
      | JObj kvs \<Rightarrow>
          (case map_of kvs ''length'' of
             None \<Rightarrow> None
           | Some n \<Rightarrow>
               if gt0 numPos n
               then Some (case map_of kvs ''0'' of Some x \<Rightarrow> x | None \<Rightarrow> JUndefined)
               else None)
      | _ \<Rightarrow> None)"

text \<open>
  A parsed body lacks the candidates structure when it is not \<open>null\<close> and its \<open>candidates\<close>
  member is missing or falsy or has no first element, or has a first element that lacks
  it: one that is not \<open>null\<close> and whose \<open>content\<close> member is missing or falsy, or has a
  \<open>parts\<close> member that is missing or falsy or has no first element.
\<close>

definition firstLacks :: "(string \<Rightarrow> bool) \<Rightarrow> jsval \<Rightarrow> bool" where
  "firstLacks numPos first \<longleftrightarrow>
     (if nullish first then False
      else case truthyMember first ''content'' of
             None \<Rightarrow> True
           | Some content \<Rightarrow>
               (case truthyMember content ''parts'' of
                  None \<Rightarrow> True
                | Some parts \<Rightarrow> firstElement numPos parts = None))"

definition lacksStructure :: "(string \<Rightarrow> bool) \<Rightarrow> jsval \<Rightarrow> bool" where
  "lacksStructure numPos result \<longleftrightarrow>
     (if nullish result then False
      else case truthyMember result ''candidates'' of
             None \<Rightarrow> True
           | Some candidates \<Rightarrow>
               (case firstElement numPos candidates of
                  None \<Rightarrow> True
                | Some first \<Rightarrow> firstLacks numPos first))"

text \<open>Sample inputs.\<close>

definition coin :: "nat \<Rightarrow> crypto" where
  "coin n = \<lparr>crypto_id = ''coin-'' @ showNat n, name = ''Coin '' @ showNat n, symbol = ''cn''\<rparr>"

definition twoShown :: app where
  "twoShown = \<lparr>cryptos = [bitcoin, bitcoin_cash], searchTerm = ''bit'',
     showSuggestions = True, selectedSuggestionIndex = 0\<rparr>"



definition secondChosen :: "event list" where
  "secondChosen = [CryptosLoaded [bitcoin, bitcoin_cash], SearchChange ''bit'', KeyDown ArrowDown,
     KeyDown ArrowDown]"

definition blank :: feed where
  "blank = \<lparr>cryptosData = JArr [], loading = True, error = None\<rparr>"

definition rateLimited :: response where
  "rateLimited = \<lparr>status = 429, statusText = ''Too Many Requests'',
     body = Inr (JObj [(''status'', JObj [(''error_code'', JNum 429),
                                          (''error_message'', JStr ''Rate limit exceeded'')])])\<rparr>"

definition unavailable :: response where
  "unavailable = \<lparr>status = 503, statusText = ''Service Unavailable'',
     body = Inl ''Unexpected token < in JSON at position 0''\<rparr>"

definition unauthorized :: response where
  "unauthorized = \<lparr>status = 401, statusText = ''Unauthorized'',
     body = Inr (JObj [(''error'', JStr ''invalid api key'')])\<rparr>"

definition truncated :: response where
  "truncated = \<lparr>status = 200, statusText = ''OK'', body = Inl ''Unexpected end of JSON input''\<rparr>"

definition nullReply :: response where
  "nullReply = \<lparr>status = 200, statusText = ''OK'', body = Inr JNull\<rparr>"

definition quotaBody :: jsval where
  "quotaBody = JObj [(''error'', JObj [(''code'', JNum 429), (''message'', JStr ''Quota exceeded'')])]"

definition quotaReply :: response where
  "quotaReply = \<lparr>status = 429, statusText = ''Too Many Requests'', body = Inr quotaBody\<rparr>"

definition nullCandidateReply :: response where
  "nullCandidateReply = \<lparr>status = 200, statusText = ''OK'',
     body = Inr (JObj [(''candidates'', JArr [JNull])])\<rparr>"

section \<open>The search index\<close>
















text \<open>
  C2, as the claim states it, fails for the empty query: there the filtered list is the
  whole asset list and the suggestion list is empty, so the suggestions are not the first
  \<open>min(8, len)\<close> elements of the filtered list.
\<close>

theorem searchSuggestions_empty_query_counterexample:
  "searchSuggestions [bitcoin] [] \<noteq>
   take (min 8 (length (filteredCryptos [bitcoin] []))) (filteredCryptos [bitcoin] [])"
  by (simp add: searchSuggestions_def filteredCryptos_def)

text \<open>
  C2, amended. The suggestion list never has more than 8 entries. For every non-empty
  query it is the first \<open>min(8, len(filter(L, Q)))\<close> elements of the filtered list, in the
  same order. For the empty query it is the empty list (while the filtered list is \<open>L\<close>).
\<close>

theorem searchSuggestions_prefix:
  "length (searchSuggestions L Q) \<le> 8 \<and>
   (Q \<noteq> [] \<longrightarrow>
      searchSuggestions L Q =
        take (min 8 (length (filteredCryptos L Q))) (filteredCryptos L Q)) \<and>
   searchSuggestions L [] = []"
proof -
  have "take (min 8 (length xs)) xs = take 8 xs" for xs :: "crypto list"
    by (simp add: min_def)
  then show ?thesis
    by (simp add: searchSuggestions_def filteredCryptos_def Let_def)
qed

theorem searchSuggestions_prefix_witness:
  "''co'' \<noteq> [] \<and>
   length (filteredCryptos (map coin [0..<10]) ''co'') = 10 \<and>
   searchSuggestions (map coin [0..<10]) ''co'' = map coin [0..<8] \<and>
   take (min 8 (length (filteredCryptos (map coin [0..<10]) ''co'')))
     (filteredCryptos (map coin [0..<10]) ''co'') = map coin [0..<8]"
proof -
  have ne: "''co'' \<noteq> []" by simp
  have len: "length (filteredCryptos (map coin [0..<10]) ''co'') = 10"
    by code_simp
  have ran: "searchSuggestions (map coin [0..<10]) ''co'' = map coin [0..<8]"
    by code_simp
  from searchSuggestions_prefix [of "map coin [0..<10]" "''co''"] ne
  have "searchSuggestions (map coin [0..<10]) ''co'' =
        take (min 8 (length (filteredCryptos (map coin [0..<10]) ''co'')))
          (filteredCryptos (map coin [0..<10]) ''co'')"
    by blast
  with ne len ran show ?thesis by simp
qed

section \<open>The suggestion navigator\<close>

lemmas nav_defs = handleSearchChange_def selectSuggestion_def handleKeyDown_def
  handleClickOutside_def panelRendered_def suggestionsOf_def at_index_def

lemma handleKeyDown_hidden_unselected:
  "hidden_unselected s \<Longrightarrow> hidden_unselected (handleKeyDown k s)"
  by (cases k) (auto simp: hidden_unselected_def nav_defs Let_def split: option.splits)

lemma step_hidden_unselected: "hidden_unselected s \<Longrightarrow> hidden_unselected (step e s)"
proof (cases e)
  case (KeyDown k)
  assume "hidden_unselected s"
  with KeyDown show ?thesis by (simp add: step_def handleKeyDown_hidden_unselected)
qed (auto simp: step_def hidden_unselected_def nav_defs)

lemma run_hidden_unselected: "hidden_unselected s \<Longrightarrow> hidden_unselected (run es s)"
  by (induction es arbitrary: s) (simp_all add: step_hidden_unselected)

lemma initial_hidden_unselected: "hidden_unselected initial"
  by (simp add: hidden_unselected_def initial_def)

lemma reached_hidden_unselected: "hidden_unselected (run es initial)"
  by (rule run_hidden_unselected [OF initial_hidden_unselected])








lemma handleKeyDown_hidden: "\<not> showSuggestions s \<Longrightarrow> handleKeyDown k s = s"
  by (simp add: handleKeyDown_def)

lemma run_keys_hidden: "\<not> showSuggestions s \<Longrightarrow> run (map KeyDown ks) s = s"
  by (induction ks) (simp_all add: step_def handleKeyDown_hidden)

lemma arrow_down_shown:
  "showSuggestions s \<Longrightarrow> selectedSuggestionIndex s \<le> int (length (suggestionsOf s)) - 1 \<Longrightarrow>
   handleKeyDown ArrowDown s =
     s\<lparr>selectedSuggestionIndex :=
         min (selectedSuggestionIndex s + 1) (int (length (suggestionsOf s)) - 1)\<rparr>"
  by (simp add: handleKeyDown_def Let_def min_def)

lemma arrow_up_shown:
  "showSuggestions s \<Longrightarrow>
   handleKeyDown ArrowUp s =
     s\<lparr>selectedSuggestionIndex := max (selectedSuggestionIndex s - 1) (- 1)\<rparr>"
  by (simp add: handleKeyDown_def Let_def max_def)

lemma suggestionsOf_cursor [simp]:
  "suggestionsOf (s\<lparr>selectedSuggestionIndex := i\<rparr>) = suggestionsOf s"
  by (simp add: suggestionsOf_def)

lemma run_down_shown:
  "showSuggestions s \<Longrightarrow> selectedSuggestionIndex s \<le> int (length (suggestionsOf s)) - 1 \<Longrightarrow>
   run (replicate n (KeyDown ArrowDown)) s =
     s\<lparr>selectedSuggestionIndex :=
         min (selectedSuggestionIndex s + int n) (int (length (suggestionsOf s)) - 1)\<rparr>"
proof (induction n arbitrary: s)
  case 0
  then show ?case by simp
next
  case (Suc n)
  let ?L = "int (length (suggestionsOf s)) - 1"
  let ?t = "s\<lparr>selectedSuggestionIndex := min (selectedSuggestionIndex s + 1) ?L\<rparr>"
  have st: "step (KeyDown ArrowDown) s = ?t"
    using Suc.prems by (simp add: step_def arrow_down_shown)
  have "run (replicate n (KeyDown ArrowDown)) ?t =
     ?t\<lparr>selectedSuggestionIndex :=
          min (selectedSuggestionIndex ?t + int n) (int (length (suggestionsOf ?t)) - 1)\<rparr>"
    using Suc.prems by (intro Suc.IH) simp_all
  moreover have "min (min (selectedSuggestionIndex s + 1) ?L + int n) ?L =
                 min (selectedSuggestionIndex s + int (Suc n)) ?L"
    by simp
  ultimately show ?case
    using st by simp
qed

lemma run_up_shown:
  "showSuggestions s \<Longrightarrow> - 1 \<le> selectedSuggestionIndex s \<Longrightarrow>
   run (replicate n (KeyDown ArrowUp)) s =
     s\<lparr>selectedSuggestionIndex := max (selectedSuggestionIndex s - int n) (- 1)\<rparr>"
proof (induction n arbitrary: s)
  case 0
  then show ?case by (simp add: max_def)
next
  case (Suc n)
  let ?t = "s\<lparr>selectedSuggestionIndex := max (selectedSuggestionIndex s - 1) (- 1)\<rparr>"
  have st: "step (KeyDown ArrowUp) s = ?t"
    using Suc.prems by (simp add: step_def arrow_up_shown)
  have "run (replicate n (KeyDown ArrowUp)) ?t =
     ?t\<lparr>selectedSuggestionIndex := max (selectedSuggestionIndex ?t - int n) (- 1)\<rparr>"
    using Suc.prems by (intro Suc.IH) simp_all
  moreover have "max (max (selectedSuggestionIndex s - 1) (- 1) - int n) (- 1) =
                 max (selectedSuggestionIndex s - int (Suc n)) (- 1)"
    by simp
  ultimately show ?case
    using st by simp
qed

lemma arrow_in_range:
  "in_range s \<Longrightarrow> k = ArrowDown \<or> k = ArrowUp \<Longrightarrow>
   in_range (handleKeyDown k s) \<and> suggestionsOf (handleKeyDown k s) = suggestionsOf s"
  by (auto simp: in_range_def handleKeyDown_def Let_def)

lemma run_arrows_in_range:
  "in_range s \<Longrightarrow> set ks \<subseteq> {ArrowDown, ArrowUp} \<Longrightarrow>
   in_range (run (map KeyDown ks) s) \<and> suggestionsOf (run (map KeyDown ks) s) = suggestionsOf s"
proof (induction ks arbitrary: s)
  case Nil
  then show ?case by simp
next
  case (Cons k ks)
  from Cons.prems have k: "k = ArrowDown \<or> k = ArrowUp" and ks: "set ks \<subseteq> {ArrowDown, ArrowUp}"
    by auto
  from arrow_in_range [OF Cons.prems(1) k]
  have 1: "in_range (handleKeyDown k s)"
    and 2: "suggestionsOf (handleKeyDown k s) = suggestionsOf s"
    by simp_all
  from Cons.IH [OF 1 ks] 2 show ?case
    by (simp add: step_def)
qed

text \<open>
  C4. From a cursor in \<open>[-1, len(suggestions) - 1]\<close>, any sequence of moveDown and moveUp
  events leaves the suggestion list as it is and the cursor in that interval. \<open>n\<close>
  moveDown events put the cursor at \<open>min(cursor + n, len - 1)\<close> and \<open>n\<close> moveUp events at
  \<open>max(cursor - n, -1)\<close> (and leave it alone while the suggestions are hidden): the moves
  stop at their bound and never wrap around.
\<close>

theorem arrows_saturate:
  assumes "- 1 \<le> selectedSuggestionIndex s"
    and "selectedSuggestionIndex s \<le> int (length (suggestionsOf s)) - 1"
  shows "(set ks \<subseteq> {ArrowDown, ArrowUp} \<longrightarrow>
           - 1 \<le> selectedSuggestionIndex (run (map KeyDown ks) s) \<and>
           selectedSuggestionIndex (run (map KeyDown ks) s) \<le> int (length (suggestionsOf s)) - 1 \<and>
           suggestionsOf (run (map KeyDown ks) s) = suggestionsOf s) \<and>
         selectedSuggestionIndex (run (replicate n (KeyDown ArrowDown)) s) =
           (if showSuggestions s
            then min (selectedSuggestionIndex s + int n) (int (length (suggestionsOf s)) - 1)
            else selectedSuggestionIndex s) \<and>
         selectedSuggestionIndex (run (replicate n (KeyDown ArrowUp)) s) =
           (if showSuggestions s
            then max (selectedSuggestionIndex s - int n) (- 1)
            else selectedSuggestionIndex s)"
proof -
  have r: "in_range s" using assms by (simp add: in_range_def)
  have a: "set ks \<subseteq> {ArrowDown, ArrowUp} \<longrightarrow>
           - 1 \<le> selectedSuggestionIndex (run (map KeyDown ks) s) \<and>
           selectedSuggestionIndex (run (map KeyDown ks) s) \<le> int (length (suggestionsOf s)) - 1 \<and>
           suggestionsOf (run (map KeyDown ks) s) = suggestionsOf s"
    using run_arrows_in_range [OF r, of ks] by (auto simp: in_range_def)
  have hid: "run (replicate n (KeyDown k)) s = s" if "\<not> showSuggestions s" for k
    using run_keys_hidden [OF that, of "replicate n k"] by simp
  have d: "selectedSuggestionIndex (run (replicate n (KeyDown ArrowDown)) s) =
           (if showSuggestions s
            then min (selectedSuggestionIndex s + int n) (int (length (suggestionsOf s)) - 1)
            else selectedSuggestionIndex s)"
    using assms(2) by (simp add: run_down_shown hid)
  have u: "selectedSuggestionIndex (run (replicate n (KeyDown ArrowUp)) s) =
           (if showSuggestions s
            then max (selectedSuggestionIndex s - int n) (- 1)
            else selectedSuggestionIndex s)"
    using assms(1) by (simp add: run_up_shown hid)
  from a d u show ?thesis by blast
qed

theorem arrows_saturate_witness:
  "- 1 \<le> selectedSuggestionIndex twoShown \<and>
   selectedSuggestionIndex twoShown \<le> int (length (suggestionsOf twoShown)) - 1 \<and>
   set [ArrowDown, ArrowDown, ArrowDown, ArrowUp] \<subseteq> {ArrowDown, ArrowUp} \<and>
   length (suggestionsOf twoShown) = 2 \<and>
   selectedSuggestionIndex (run (map KeyDown [ArrowDown, ArrowDown, ArrowDown, ArrowUp]) twoShown) \<le> 1 \<and>
   selectedSuggestionIndex (run (replicate 5 (KeyDown ArrowDown)) twoShown) = 1 \<and>
   selectedSuggestionIndex (run (replicate 5 (KeyDown ArrowUp)) twoShown) = - 1"
proof -
  have lo: "- 1 \<le> selectedSuggestionIndex twoShown"
    and hi: "selectedSuggestionIndex twoShown \<le> int (length (suggestionsOf twoShown)) - 1"
    by code_simp+
  have ks: "set [ArrowDown, ArrowDown, ArrowDown, ArrowUp] \<subseteq> {ArrowDown, ArrowUp}"
    by simp
  have vals: "length (suggestionsOf twoShown) = 2 \<and> showSuggestions twoShown \<and>
      selectedSuggestionIndex twoShown = 0"
    by code_simp
  from arrows_saturate [OF lo hi, where ks = "[ArrowDown, ArrowDown, ArrowDown, ArrowUp]" and n = 5]
    ks vals
  have "selectedSuggestionIndex
          (run (map KeyDown [ArrowDown, ArrowDown, ArrowDown, ArrowUp]) twoShown) \<le> 1"
    and "selectedSuggestionIndex (run (replicate 5 (KeyDown ArrowDown)) twoShown) = 1"
    and "selectedSuggestionIndex (run (replicate 5 (KeyDown ArrowUp)) twoShown) = - 1"
    by simp_all
  with lo hi ks vals show ?thesis by simp
qed

text \<open>
  C5. In every state the program reaches, a confirm event with the cursor at \<open>-1\<close> changes
  nothing, and a confirm event with the cursor at \<open>0\<close> or more and a suggestion present at
  the cursor sets the query to that asset's display name, hides the suggestions and
  resets the cursor to \<open>-1\<close>.
\<close>

theorem enter_confirms:
  "(selectedSuggestionIndex (run es initial) = - 1 \<longrightarrow>
      handleKeyDown Enter (run es initial) = run es initial) \<and>
   (0 \<le> selectedSuggestionIndex (run es initial) \<and>
    at_index (suggestionsOf (run es initial)) (selectedSuggestionIndex (run es initial)) = Some c \<longrightarrow>
      handleKeyDown Enter (run es initial) =
        (run es initial)\<lparr>searchTerm := name c, showSuggestions := False,
                          selectedSuggestionIndex := - 1\<rparr>)"
proof -
  let ?s = "run es initial"
  have "hidden_unselected ?s"
    by (rule reached_hidden_unselected)
  then have shown: "showSuggestions ?s" if "0 \<le> selectedSuggestionIndex ?s"
    using that by (auto simp: hidden_unselected_def)
  have 1: "handleKeyDown Enter ?s = ?s" if "selectedSuggestionIndex ?s = - 1"
    using that by (simp add: handleKeyDown_def)
  have 2: "handleKeyDown Enter ?s =
        ?s\<lparr>searchTerm := name c, showSuggestions := False, selectedSuggestionIndex := - 1\<rparr>"
    if "0 \<le> selectedSuggestionIndex ?s"
      and "at_index (suggestionsOf ?s) (selectedSuggestionIndex ?s) = Some c"
    using that shown by (simp add: handleKeyDown_def selectSuggestion_def)
  from 1 2 show ?thesis by blast
qed

theorem enter_confirms_witness:
  "selectedSuggestionIndex (run [SearchChange ''bit''] initial) = - 1 \<and>
   handleKeyDown Enter (run [SearchChange ''bit''] initial) = run [SearchChange ''bit''] initial \<and>
   0 \<le> selectedSuggestionIndex (run secondChosen initial) \<and>
   at_index (suggestionsOf (run secondChosen initial))
     (selectedSuggestionIndex (run secondChosen initial)) = Some bitcoin_cash \<and>
   handleKeyDown Enter (run secondChosen initial) =
     \<lparr>cryptos = [bitcoin, bitcoin_cash], searchTerm = ''Bitcoin Cash'',
      showSuggestions = False, selectedSuggestionIndex = - 1\<rparr>"
proof -
  have a: "selectedSuggestionIndex (run [SearchChange ''bit''] initial) = - 1"
    by code_simp
  have b: "0 \<le> selectedSuggestionIndex (run secondChosen initial) \<and>
      at_index (suggestionsOf (run secondChosen initial))
        (selectedSuggestionIndex (run secondChosen initial)) = Some bitcoin_cash"
    by code_simp
  have c: "(run secondChosen initial)\<lparr>searchTerm := name bitcoin_cash, showSuggestions := False,
                          selectedSuggestionIndex := - 1\<rparr> =
     \<lparr>cryptos = [bitcoin, bitcoin_cash], searchTerm = ''Bitcoin Cash'',
      showSuggestions = False, selectedSuggestionIndex = - 1\<rparr>"
    by code_simp
  from enter_confirms [of "[SearchChange ''bit'']" bitcoin_cash] a
  have 1: "handleKeyDown Enter (run [SearchChange ''bit''] initial) =
           run [SearchChange ''bit''] initial"
    by blast
  from enter_confirms [of secondChosen bitcoin_cash] b
  have 2: "handleKeyDown Enter (run secondChosen initial) =
        (run secondChosen initial)\<lparr>searchTerm := name bitcoin_cash, showSuggestions := False,
                          selectedSuggestionIndex := - 1\<rparr>"
    by blast
  from a b c 1 2 show ?thesis by simp
qed

text \<open>
  C8. From any state, two cancel events in a row leave the same state as one. In every
  state the program reaches, after one cancel event and after two the cursor is \<open>-1\<close> and
  the suggestions are hidden.
\<close>

theorem escape_idempotent:
  "handleKeyDown Escape (handleKeyDown Escape s) = handleKeyDown Escape s \<and>
   selectedSuggestionIndex (handleKeyDown Escape (run es initial)) = - 1 \<and>
   \<not> showSuggestions (handleKeyDown Escape (run es initial)) \<and>
   selectedSuggestionIndex (handleKeyDown Escape (handleKeyDown Escape (run es initial))) = - 1 \<and>
   \<not> showSuggestions (handleKeyDown Escape (handleKeyDown Escape (run es initial)))"
proof -
  have idem: "handleKeyDown Escape (handleKeyDown Escape t) = handleKeyDown Escape t" for t
    by (simp add: handleKeyDown_def)
  have "hidden_unselected (run es initial)"
    by (rule reached_hidden_unselected)
  then have "selectedSuggestionIndex (handleKeyDown Escape (run es initial)) = - 1 \<and>
   \<not> showSuggestions (handleKeyDown Escape (run es initial))"
    by (auto simp: hidden_unselected_def handleKeyDown_def)
  with idem show ?thesis by simp
qed

theorem escape_idempotent_witness:
  "handleKeyDown Escape (handleKeyDown Escape twoShown) =
     \<lparr>cryptos = [bitcoin, bitcoin_cash], searchTerm = ''bit'',
      showSuggestions = False, selectedSuggestionIndex = - 1\<rparr> \<and>
   selectedSuggestionIndex (handleKeyDown Escape (run secondChosen initial)) = - 1"
proof -
  have "handleKeyDown Escape twoShown =
     \<lparr>cryptos = [bitcoin, bitcoin_cash], searchTerm = ''bit'',
      showSuggestions = False, selectedSuggestionIndex = - 1\<rparr>"
    by code_simp
  with escape_idempotent [of twoShown secondChosen] show ?thesis by simp
qed

text \<open>
  C10. While the suggestions are hidden, every key event (moveDown, moveUp, confirm,
  cancel and any other key) leaves the whole state, and so the query, the cursor and the
  visibility, unchanged.
\<close>

theorem hidden_keys_noop:
  "\<not> showSuggestions s \<Longrightarrow> handleKeyDown k s = s"
  by (simp add: handleKeyDown_def)

theorem hidden_keys_noop_witness:
  "\<not> showSuggestions (twoShown\<lparr>showSuggestions := False\<rparr>) \<and>
   handleKeyDown ArrowDown (twoShown\<lparr>showSuggestions := False\<rparr>) = twoShown\<lparr>showSuggestions := False\<rparr> \<and>
   handleKeyDown ArrowUp (twoShown\<lparr>showSuggestions := False\<rparr>) = twoShown\<lparr>showSuggestions := False\<rparr> \<and>
   handleKeyDown Enter (twoShown\<lparr>showSuggestions := False\<rparr>) = twoShown\<lparr>showSuggestions := False\<rparr> \<and>
   handleKeyDown Escape (twoShown\<lparr>showSuggestions := False\<rparr>) = twoShown\<lparr>showSuggestions := False\<rparr>"
proof -
  have h: "\<not> showSuggestions (twoShown\<lparr>showSuggestions := False\<rparr>)" by simp
  from hidden_keys_noop [OF h, where k = ArrowDown] hidden_keys_noop [OF h, where k = ArrowUp]
    hidden_keys_noop [OF h, where k = Enter] hidden_keys_noop [OF h, where k = Escape] h
  show ?thesis by simp
qed

section \<open>Reading properties\<close>

lemma showNat_digits:
  "c \<in> set (showNat n) \<Longrightarrow> 48 \<le> (of_char c :: nat) \<and> (of_char c :: nat) \<le> 57"
proof (induction n rule: showNat.induct)
  case (1 n)
  show ?case
  proof (cases "n < 10")
    case True
    with "1.prems" have "c = char_of (48 + n)"
      by (simp add: showNat.simps [of n])
    with True show ?thesis by simp
  next
    case False
    with "1.prems" have "c \<in> set (showNat (n div 10)) \<or> c = char_of (48 + n mod 10)"
      by (auto simp: showNat.simps [of n])
    then show ?thesis
    proof
      assume "c \<in> set (showNat (n div 10))"
      with "1.IH" False show ?thesis by simp
    next
      assume "c = char_of (48 + n mod 10)"
      moreover have "n mod 10 < 10" by simp
      ultimately show ?thesis by simp
    qed
  qed
qed

lemma showNat_0: "showNat 0 = ''0''"
  by code_simp

lemma elementAt_named: "named k \<Longrightarrow> elementAt xs k = None"
proof -
  assume "named k"
  then obtain c where c: "c \<in> set k" "(of_char c :: nat) < 48 \<or> 57 < (of_char c :: nat)"
    by (auto simp: named_def list_ex_iff)
  have "k \<notin> set (map showNat [0..<length xs])"
  proof
    assume "k \<in> set (map showNat [0..<length xs])"
    then obtain i where "k = showNat i" by auto
    with c(1) showNat_digits [of c i] have "48 \<le> (of_char c :: nat) \<and> (of_char c :: nat) \<le> 57"
      by simp
    with c(2) show False by simp
  qed
  then show ?thesis
    by (simp add: elementAt_def map_of_zip_is_None)
qed

lemma elementAt_first: "elementAt (x # xs) ''0'' = Some x"
proof -
  have "[0..<length (x # xs)] = 0 # [Suc 0..<length (x # xs)]"
    by (rule upt_conv_Cons) simp
  then have "zip (map showNat [0..<length (x # xs)]) (x # xs) =
      (showNat 0, x) # zip (map showNat [Suc 0..<length (x # xs)]) xs"
    by (simp only: list.map zip_Cons_Cons)
  then show ?thesis
    unfolding elementAt_def by (simp add: showNat_0)
qed

lemma getProp_named:
  "\<not> nullish v \<Longrightarrow> named k \<Longrightarrow>
   getProp v k = Inr (case ownMember v k of Some x \<Rightarrow> x | None \<Rightarrow> JUndefined)"
  by (cases v) (auto simp: nullish_def ownMember_def elementAt_named named_def)

lemma named_keys:
  "named ''candidates''" "named ''content''" "named ''parts''" "named ''error''" "named ''message''"
  by (simp_all add: named_def)

lemma truthy_not_nullish: "truthy v \<Longrightarrow> \<not> nullish v"
  by (auto simp: nullish_def)

lemma truthyMember_None:
  "truthyMember v k = None \<Longrightarrow>
   \<not> truthy (case ownMember v k of Some x \<Rightarrow> x | None \<Rightarrow> JUndefined)"
  by (simp add: truthyMember_def split: option.splits if_splits)

lemma truthyMember_Some:
  "truthyMember v k = Some x \<Longrightarrow> ownMember v k = Some x \<and> truthy x"
  by (simp add: truthyMember_def split: option.splits if_splits)

section \<open>The market-data client\<close>

lemma httpErrorMessage_unparsed:
  "body r = Inl pe \<Longrightarrow>
   httpErrorMessage r =
     Inr (httpText (status r) (if statusText r = [] then ''Unknown error'' else statusText r))"
  by (simp add: httpErrorMessage_def httpText_def)

lemma httpErrorMessage_parsed:
  assumes "body r = Inr v" and "\<not> nullish v"
  shows "httpErrorMessage r =
     Inr (httpText (status r) (case serverText v of Some t \<Rightarrow> t | None \<Rightarrow> ''Unknown error''))"
proof -
  have e: "getProp v ''error'' =
      Inr (case ownMember v ''error'' of Some x \<Rightarrow> x | None \<Rightarrow> JUndefined)"
    and m: "getProp v ''message'' =
      Inr (case ownMember v ''message'' of Some x \<Rightarrow> x | None \<Rightarrow> JUndefined)"
    using assms(2) by (simp_all add: getProp_named named_keys)
  show ?thesis
  proof (cases "truthyMember v ''error''")
    case (Some x)
    from truthyMember_Some [OF Some] assms(1) Some show ?thesis
      by (simp add: httpErrorMessage_def e httpText_def serverText_def)
  next
    case None
    note noError = truthyMember_None [OF None]
    show ?thesis
    proof (cases "truthyMember v ''message''")
      case (Some x)
      from truthyMember_Some [OF Some] assms(1) Some None noError show ?thesis
        by (simp add: httpErrorMessage_def e m httpText_def serverText_def)
    next
      case noMessage: None
      from truthyMember_None [OF noMessage] assms(1) None noMessage noError show ?thesis
        by (simp add: httpErrorMessage_def e m httpText_def serverText_def)
    qed
  qed
qed

text \<open>
  C7, as the claim states it, fails: a 429 response whose body parses but has neither an
  \<open>error\<close> nor a \<open>message\<close> member gives the message ending in \<open>Unknown error\<close>; the status
  text \<open>Too Many Requests\<close> does not occur in it.
\<close>

theorem fetch_failure_status_text_counterexample:
  "\<not> ok rateLimited \<and>
   error (fetchCryptoData [] (\<lambda>url. Inr rateLimited) blank) =
     Some ''Failed to load cryptocurrency data: HTTP error! Status: 429 - Unknown error. Please check your API key or try again later.'' \<and>
   \<not> includes_str (the (error (fetchCryptoData [] (\<lambda>url. Inr rateLimited) blank)))
        (statusText rateLimited)"
  by code_simp

text \<open>
  C7, amended. When the market-data fetch gets a non-success HTTP status, the failure
  message is \<open>HTTP error! Status: <code> - <detail>\<close> inside the frame
  \<open>Failed to load cryptocurrency data: ... . Please check your API key or try again later.\<close>
  When the body does not parse, the detail is the raw HTTP status text (\<open>Unknown error\<close>
  if that text is empty). When the body parses to a value other than \<open>null\<close>, the detail is
  the server-provided error text, the truthy \<open>error\<close> member of the body or else its truthy
  \<open>message\<close> member, and \<open>Unknown error\<close> when the body has neither. When the status is a
  success and the body does not parse, the message is the parser's error text in the same
  frame, without the status code. In each case loading ends and the asset list is kept.
\<close>

theorem fetch_failure_message:
  assumes "fetch (marketUrl apiKey) = Inr r"
  shows
  "(\<not> ok r \<and> body r = Inl pe \<longrightarrow>
      fetchCryptoData apiKey fetch st =
        st\<lparr>loading := False,
           error := Some (failureFrame (httpText (status r)
                      (if statusText r = [] then ''Unknown error'' else statusText r)))\<rparr>) \<and>
   (\<not> ok r \<and> body r = Inr v \<and> \<not> nullish v \<longrightarrow>
      fetchCryptoData apiKey fetch st =
        st\<lparr>loading := False,
           error := Some (failureFrame (httpText (status r)
                      (case serverText v of Some t \<Rightarrow> t | None \<Rightarrow> ''Unknown error'')))\<rparr>) \<and>
   (ok r \<and> body r = Inl pe \<longrightarrow>
      fetchCryptoData apiKey fetch st = st\<lparr>loading := False, error := Some (failureFrame pe)\<rparr>)"
proof -
  have 1: "fetchCryptoData apiKey fetch st =
        st\<lparr>loading := False,
           error := Some (failureFrame (httpText (status r)
                      (if statusText r = [] then ''Unknown error'' else statusText r)))\<rparr>"
    if "\<not> ok r" "body r = Inl pe"
    using that assms
    by (simp add: fetchCryptoData_def httpErrorMessage_unparsed fetchFailed_def failureFrame_def)
  have 2: "fetchCryptoData apiKey fetch st =
        st\<lparr>loading := False,
           error := Some (failureFrame (httpText (status r)
                      (case serverText v of Some t \<Rightarrow> t | None \<Rightarrow> ''Unknown error'')))\<rparr>"
    if "\<not> ok r" "body r = Inr v" "\<not> nullish v"
    using that assms
    by (simp add: fetchCryptoData_def httpErrorMessage_parsed fetchFailed_def failureFrame_def)
  have 3: "fetchCryptoData apiKey fetch st =
        st\<lparr>loading := False, error := Some (failureFrame pe)\<rparr>"
    if "ok r" "body r = Inl pe"
    using that assms by (simp add: fetchCryptoData_def fetchFailed_def failureFrame_def)
  from 1 2 3 show ?thesis by blast
qed

theorem fetch_failure_message_witness:
  "\<not> ok unavailable \<and> body unavailable = Inl ''Unexpected token < in JSON at position 0'' \<and>
   error (fetchCryptoData [] (\<lambda>url. Inr unavailable) blank) =
     Some ''Failed to load cryptocurrency data: HTTP error! Status: 503 - Service Unavailable. Please check your API key or try again later.'' \<and>
   \<not> ok unauthorized \<and> body unauthorized = Inr (JObj [(''error'', JStr ''invalid api key'')]) \<and>
   \<not> nullish (JObj [(''error'', JStr ''invalid api key'')]) \<and>
   error (fetchCryptoData [] (\<lambda>url. Inr unauthorized) blank) =
     Some ''Failed to load cryptocurrency data: HTTP error! Status: 401 - invalid api key. Please check your API key or try again later.'' \<and>
   ok truncated \<and> body truncated = Inl ''Unexpected end of JSON input'' \<and>
   error (fetchCryptoData [] (\<lambda>url. Inr truncated) blank) =
     Some ''Failed to load cryptocurrency data: Unexpected end of JSON input. Please check your API key or try again later.''"
proof -
  let ?pe = "''Unexpected token < in JSON at position 0''"
  let ?v = "JObj [(''error'', JStr ''invalid api key'')]"
  let ?pe' = "''Unexpected end of JSON input''"
  have h1: "\<not> ok unavailable \<and> body unavailable = Inl ?pe"
    by code_simp
  have h2: "\<not> ok unauthorized \<and> body unauthorized = Inr ?v \<and> \<not> nullish ?v"
    by code_simp
  have h3: "ok truncated \<and> body truncated = Inl ?pe'"
    by code_simp
  have v1: "failureFrame (httpText (status unavailable)
              (if statusText unavailable = [] then ''Unknown error'' else statusText unavailable)) =
     ''Failed to load cryptocurrency data: HTTP error! Status: 503 - Service Unavailable. Please check your API key or try again later.''"
    by code_simp
  have v2: "failureFrame (httpText (status unauthorized)
              (case serverText ?v of Some t \<Rightarrow> t | None \<Rightarrow> ''Unknown error'')) =
     ''Failed to load cryptocurrency data: HTTP error! Status: 401 - invalid api key. Please check your API key or try again later.''"
    by code_simp
  have v3: "failureFrame ?pe' =
     ''Failed to load cryptocurrency data: Unexpected end of JSON input. Please check your API key or try again later.''"
    by code_simp
  have f1: "(\<lambda>url. Inr unavailable) (marketUrl []) = Inr unavailable"
    and f2: "(\<lambda>url. Inr unauthorized) (marketUrl []) = Inr unauthorized"
    and f3: "(\<lambda>url. Inr truncated) (marketUrl []) = Inr truncated"
    by simp_all
  from fetch_failure_message [OF f1, where pe = ?pe and st = blank and v = ?v] h1
  have 1: "fetchCryptoData [] (\<lambda>url. Inr unavailable) blank =
        blank\<lparr>loading := False,
           error := Some (failureFrame (httpText (status unavailable)
              (if statusText unavailable = [] then ''Unknown error''
               else statusText unavailable)))\<rparr>"
    by blast
  from fetch_failure_message [OF f2, where pe = ?pe and st = blank and v = ?v] h2
  have 2: "fetchCryptoData [] (\<lambda>url. Inr unauthorized) blank =
        blank\<lparr>loading := False,
           error := Some (failureFrame (httpText (status unauthorized)
              (case serverText ?v of Some t \<Rightarrow> t | None \<Rightarrow> ''Unknown error'')))\<rparr>"
    by blast
  from fetch_failure_message [OF f3, where pe = ?pe' and st = blank and v = ?v] h3
  have 3: "fetchCryptoData [] (\<lambda>url. Inr truncated) blank =
        blank\<lparr>loading := False, error := Some (failureFrame ?pe')\<rparr>"
    by blast
  from h1 h2 h3 show ?thesis
    by (simp add: 1 2 3 v1 v2 v3)
qed

section \<open>The insight client\<close>

lemma floor_quarter:
  fixes rnd :: rat
  assumes "0 \<le> rnd" "rnd < 1"
  shows "\<exists>i::nat. \<lfloor>rnd * 4\<rfloor> = int i \<and> i < 4"
proof -
  have lo: "0 \<le> \<lfloor>rnd * 4\<rfloor>" using assms by simp
  have hi: "\<lfloor>rnd * 4\<rfloor> < 4" using assms by (simp add: floor_less_iff)
  from lo hi have "\<lfloor>rnd * 4\<rfloor> = int (nat \<lfloor>rnd * 4\<rfloor>) \<and> nat \<lfloor>rnd * 4\<rfloor> < 4"
    by arith
  then show ?thesis ..
qed

text \<open>
  C6. With no insight access key, for every value \<open>Math.random()\<close> can return, no request is
  sent, whatever the network would have answered; the result is an insight and no error;
  its name is exactly the requested asset name, and its text is one of the four fallback
  templates with the asset name put in front, which is not empty.
\<close>

theorem fallback_insight:
  assumes "0 \<le> rnd" and "rnd < 1"
  shows "fallbackInsights cryptoName ! nat \<lfloor>rnd * 4\<rfloor> \<in> set (fallbackInsights cryptoName) \<and>
         fallbackInsights cryptoName ! nat \<lfloor>rnd * 4\<rfloor> \<noteq> [] \<and>
         prefix cryptoName (fallbackInsights cryptoName ! nat \<lfloor>rnd * 4\<rfloor>) \<and>
         getCryptoInsight numPos [] rnd fetch cryptoName =
           \<lparr>llmInsight =
              Some \<lparr>insight_name = cryptoName,
                    insight_text = JStr (fallbackInsights cryptoName ! nat \<lfloor>rnd * 4\<rfloor>)\<rparr>,
            isInsightLoading = False, insightError = None, posted = []\<rparr>"
proof -
  from floor_quarter [OF assms] obtain i :: nat where i: "\<lfloor>rnd * 4\<rfloor> = int i" "i < 4"
    by blast
  then have ni: "nat \<lfloor>rnd * 4\<rfloor> = i"
    by simp
  let ?t = "fallbackInsights cryptoName ! i"
  have len: "length (fallbackInsights cryptoName) = 4"
    by (simp add: fallbackInsights_def)
  have mem: "?t \<in> set (fallbackInsights cryptoName)"
    using i(2) len by simp
  then have shape: "?t \<noteq> [] \<and> prefix cryptoName ?t"
    by (auto simp: fallbackInsights_def)
  have "at_index (fallbackInsights cryptoName)
          \<lfloor>rnd * of_nat (length (fallbackInsights cryptoName))\<rfloor> = Some ?t"
    using i len by (simp add: at_index_def)
  then have "getCryptoInsight numPos [] rnd fetch cryptoName =
             \<lparr>llmInsight = Some \<lparr>insight_name = cryptoName, insight_text = JStr ?t\<rparr>,
              isInsightLoading = False, insightError = None, posted = []\<rparr>"
    by (simp add: getCryptoInsight_def Let_def)
  with mem shape show ?thesis
    unfolding ni by blast
qed

theorem fallback_insight_witness:
  "(0::rat) \<le> 5 / 8 \<and> (5 / 8 :: rat) < 1 \<and>
   getCryptoInsight (\<lambda>s. False) [] (5 / 8) (\<lambda>url payload. Inl ''Failed to fetch'') ''Bitcoin'' =
     \<lparr>llmInsight =
        Some \<lparr>insight_name = ''Bitcoin'',
              insight_text = JStr ''Bitcoin has established itself as a key digital asset with growing adoption and market presence.''\<rparr>,
      isInsightLoading = False, insightError = None, posted = []\<rparr>"
proof -
  have lo: "(0::rat) \<le> 5 / 8" and hi: "(5 / 8 :: rat) < 1"
    by simp_all
  have t: "fallbackInsights ''Bitcoin'' ! nat \<lfloor>(5 / 8 :: rat) * 4\<rfloor> =
      ''Bitcoin has established itself as a key digital asset with growing adoption and market presence.''"
    by code_simp
  from fallback_insight [OF lo hi, where cryptoName = "''Bitcoin''" and numPos = "\<lambda>s. False"
      and fetch = "\<lambda>url payload. Inl ''Failed to fetch''"]
  have "getCryptoInsight (\<lambda>s. False) [] (5 / 8) (\<lambda>url payload. Inl ''Failed to fetch'') ''Bitcoin'' =
           \<lparr>llmInsight =
              Some \<lparr>insight_name = ''Bitcoin'',
                    insight_text = JStr (fallbackInsights ''Bitcoin'' ! nat \<lfloor>(5 / 8 :: rat) * 4\<rfloor>)\<rparr>,
            isInsightLoading = False, insightError = None, posted = []\<rparr>"
    by blast
  with lo hi show ?thesis
    by (simp only: t simp_thms)
qed

lemma first_none:
  "\<not> nullish c \<Longrightarrow> firstElement numPos c = None \<Longrightarrow>
   \<exists>n. getProp c ''length'' = Inr n \<and> \<not> gt0 numPos n"
  by (cases c)
    (auto simp: nullish_def firstElement_def split: list.splits option.splits if_splits)

lemma first_some:
  "firstElement numPos c = Some x \<Longrightarrow>
   \<exists>n. getProp c ''length'' = Inr n \<and> gt0 numPos n \<and> getProp c ''0'' = Inr x"
  by (cases c)
    (auto simp: firstElement_def elementAt_first split: list.splits option.splits if_splits)

lemma candidateText_no_candidates:
  "\<not> nullish result \<Longrightarrow> truthyMember result ''candidates'' = None \<Longrightarrow>
   candidateText numPos result = Inr None"
  using truthyMember_None [of result "''candidates''"]
  by (simp add: candidateText_def getProp_named named_keys)

lemma candidateText_no_first:
  assumes "\<not> nullish result" and "ownMember result ''candidates'' = Some c" and "truthy c"
    and "firstElement numPos c = None"
  shows "candidateText numPos result = Inr None"
proof -
  from assms(3) have "\<not> nullish c" by (rule truthy_not_nullish)
  from first_none [OF this assms(4)] obtain n
    where "getProp c ''length'' = Inr n" and "\<not> gt0 numPos n"
    by blast
  with assms(1,2,3) show ?thesis
    by (simp add: candidateText_def getProp_named named_keys)
qed

lemma candidateText_first:
  assumes "\<not> nullish result" and "ownMember result ''candidates'' = Some c" and "truthy c"
    and "firstElement numPos c = Some first" and "firstLacks numPos first"
  shows "candidateText numPos result = Inr None"
proof -
  from assms(5) have fn: "\<not> nullish first"
    by (simp add: firstLacks_def split: if_splits)
  from first_some [OF assms(4)] obtain n
    where len: "getProp c ''length'' = Inr n" "gt0 numPos n" and zero: "getProp c ''0'' = Inr first"
    by blast
  have start: "candidateText numPos result =
    (case getProp first ''content'' of
        Inl m \<Rightarrow> Inl m
      | Inr content \<Rightarrow>
     if \<not> truthy content then Inr None else
     (case getProp content ''parts'' of
        Inl m \<Rightarrow> Inl m
      | Inr parts \<Rightarrow>
     if \<not> truthy parts then Inr None else
     (case getProp parts ''length'' of
        Inl m \<Rightarrow> Inl m
      | Inr n' \<Rightarrow>
     if \<not> gt0 numPos n' then Inr None else
     (case getProp parts ''0'' of
        Inl m \<Rightarrow> Inl m
      | Inr part \<Rightarrow>
     (case getProp part ''text'' of
        Inl m \<Rightarrow> Inl m
      | Inr text \<Rightarrow> Inr (Some text))))))"
    using assms(1,2,3) len zero by (simp add: candidateText_def getProp_named named_keys)
  show ?thesis
  proof (cases "truthyMember first ''content''")
    case None
    from truthyMember_None [OF None] fn show ?thesis
      by (simp add: start getProp_named named_keys)
  next
    case (Some content)
    from truthyMember_Some [OF Some]
    have own: "ownMember first ''content'' = Some content" and tr: "truthy content"
      by simp_all
    from tr have cn: "\<not> nullish content" by (rule truthy_not_nullish)
    from assms(5) fn Some
    have lack: "case truthyMember content ''parts'' of
                  None \<Rightarrow> True
                | Some parts \<Rightarrow> firstElement numPos parts = None"
      by (simp add: firstLacks_def)
    show ?thesis
    proof (cases "truthyMember content ''parts''")
      case None
      from truthyMember_None [OF None] fn own tr cn show ?thesis
        by (simp add: start getProp_named named_keys)
    next
      case parts: (Some parts)
      with lack have none: "firstElement numPos parts = None" by simp
      from truthyMember_Some [OF parts]
      have pown: "ownMember content ''parts'' = Some parts" and ptr: "truthy parts"
        by simp_all
      from ptr have "\<not> nullish parts" by (rule truthy_not_nullish)
      from first_none [OF this none] obtain n'
        where "getProp parts ''length'' = Inr n'" and "\<not> gt0 numPos n'"
        by blast
      with fn own tr cn pown ptr show ?thesis
        by (simp add: start getProp_named named_keys)
    qed
  qed
qed

lemma candidateText_lacks:
  assumes "lacksStructure numPos result"
  shows "candidateText numPos result = Inr None"
proof -
  from assms have nn: "\<not> nullish result"
    by (simp add: lacksStructure_def split: if_splits)
  show ?thesis
  proof (cases "truthyMember result ''candidates''")
    case None
    with nn show ?thesis by (rule candidateText_no_candidates)
  next
    case (Some c)
    from truthyMember_Some [OF Some]
    have own: "ownMember result ''candidates'' = Some c" and tr: "truthy c"
      by simp_all
    from assms nn Some
    have rest: "case firstElement numPos c of
                  None \<Rightarrow> True
                | Some first \<Rightarrow> firstLacks numPos first"
      by (simp add: lacksStructure_def)
    show ?thesis
    proof (cases "firstElement numPos c")
      case None
      from candidateText_no_first [OF nn own tr None] show ?thesis .
    next
      case (Some first)
      with rest have "firstLacks numPos first" by simp
      from candidateText_first [OF nn own tr Some this] show ?thesis .
    qed
  qed
qed

text \<open>
  The paths on which the structure is missing and no read raises. The HTTP status of the
  response is never consulted: two responses with the same parsed body give the same
  result. A parsed body that lacks the candidates structure gives the generic failure
  message and no insight, whatever the status.
\<close>

lemma missing_structure_generic:
  assumes "fetch (insightUrl geminiApiKey) (insightPrompt cryptoName) = Inr r"
  shows
  "(fetch' (insightUrl geminiApiKey) (insightPrompt cryptoName) = Inr r' \<and> body r = body r' \<longrightarrow>
      getCryptoInsight numPos geminiApiKey rnd fetch cryptoName =
      getCryptoInsight numPos geminiApiKey rnd fetch' cryptoName) \<and>
   (geminiApiKey \<noteq> [] \<and> body r = Inr result \<and> lacksStructure numPos result \<longrightarrow>
      getCryptoInsight numPos geminiApiKey rnd fetch cryptoName =
        \<lparr>llmInsight = None, isInsightLoading = False,
         insightError = Some ''Could not generate insight. Please try again.'',
         posted = [(insightUrl geminiApiKey, insightPrompt cryptoName)]\<rparr>)"
proof -
  have 1: "getCryptoInsight numPos geminiApiKey rnd fetch cryptoName =
      getCryptoInsight numPos geminiApiKey rnd fetch' cryptoName"
    if "fetch' (insightUrl geminiApiKey) (insightPrompt cryptoName) = Inr r'" "body r = body r'"
    using that assms by (simp add: getCryptoInsight_def Let_def)
  have 2: "getCryptoInsight numPos geminiApiKey rnd fetch cryptoName =
        \<lparr>llmInsight = None, isInsightLoading = False,
         insightError = Some ''Could not generate insight. Please try again.'',
         posted = [(insightUrl geminiApiKey, insightPrompt cryptoName)]\<rparr>"
    if "geminiApiKey \<noteq> []" "body r = Inr result" "lacksStructure numPos result"
    using that assms by (simp add: getCryptoInsight_def Let_def candidateText_lacks)
  from 1 2 show ?thesis by blast
qed

lemma missing_structure_examples:
  "lacksStructure (\<lambda>s. False) quotaBody \<and>
   lacksStructure (\<lambda>s. False) (JObj [(''candidates'', JNum 5)]) \<and>
   lacksStructure (\<lambda>s. False) (JObj [(''candidates'', JObj [])]) \<and>
   lacksStructure (\<lambda>s. False) (JObj [(''candidates'', JBool True)]) \<and>
   lacksStructure (\<lambda>s. False) (JObj [(''candidates'', JStr ''abc'')]) \<and>
   lacksStructure (\<lambda>s. False) (JObj [(''candidates'', JArr [])]) \<and>
   lacksStructure (\<lambda>s. False)
     (JObj [(''candidates'', JArr [JObj [(''content'', JObj [(''parts'', JNum 3)])]])]) \<and>
   \<not> lacksStructure (\<lambda>s. False) JNull \<and>
   \<not> lacksStructure (\<lambda>s. False) (JObj [(''candidates'', JArr [JNull])]) \<and>
   \<not> lacksStructure (\<lambda>s. False)
     (JObj [(''candidates'', JArr [JObj [(''content'', JObj [(''parts'', JArr [JObj []])])]])])"
  by code_simp

text \<open>
  C9. In the remote insight path a response whose parsed body lacks the candidates
  structure is to give the generic failure message
  \<open>Could not generate insight. Please try again.\<close>, whatever its HTTP status, and the paths
  above do. The test at lines 95-97 reads \<open>result.candidates\<close> and
  \<open>result.candidates[0].content\<close> without a null check: for the body \<open>null\<close>, and for a body
  whose first candidate is \<open>null\<close>, the read raises and the message shown is that of the
  \<open>catch\<close> block; the body without \<open>candidates\<close> of a 429 response gives the generic message.
\<close>

theorem insight_null_body_not_generic:
  "insightError
     (getCryptoInsight (\<lambda>s. False) ''key'' 0 (\<lambda>url payload. Inr nullReply) ''Bitcoin'') =
     Some (''Failed to get insight: Cannot read properties of null (reading ''
           @ [CHR 0x27] @ ''candidates'' @ [CHR 0x27] @ '').'') \<and>
   insightError
     (getCryptoInsight (\<lambda>s. False) ''key'' 0 (\<lambda>url payload. Inr nullReply) ''Bitcoin'') \<noteq>
     Some ''Could not generate insight. Please try again.'' \<and>
   insightError
     (getCryptoInsight (\<lambda>s. False) ''key'' 0 (\<lambda>url payload. Inr nullCandidateReply) ''Bitcoin'') =
     Some (''Failed to get insight: Cannot read properties of null (reading ''
           @ [CHR 0x27] @ ''content'' @ [CHR 0x27] @ '').'') \<and>
   insightError
     (getCryptoInsight (\<lambda>s. False) ''key'' 0 (\<lambda>url payload. Inr quotaReply) ''Bitcoin'') =
     Some ''Could not generate insight. Please try again.''"
  by code_simp

end
